theory Spec2Isabelle
  imports Complex_Main "HOL-Library.List_Lexorder" "HOL-Library.Char_ord"
begin

section \<open>Strings, numbers and JSON values\<close>

text \<open>
  A Python \<open>str\<close> is modelled as a \<open>string\<close>, one \<open>char\<close> per code point
  (code points below 256). \<open>isspace\<close> lists the code points below 256 for which
  Python's \<open>str.isspace\<close> holds; \<open>strip\<close> is \<open>str.strip()\<close>.
\<close>

definition isspace :: "char \<Rightarrow> bool" where
  "isspace c = (of_char c \<in> {9, 10, 11, 12, 13, 28, 29, 30, 31, 32, 133, 160 :: nat})"

definition strip :: "string \<Rightarrow> string" where
  "strip s = rev (dropWhile isspace (rev (dropWhile isspace s)))"

text \<open>\<open>str(n)\<close> for an integer: decimal digits, with a sign for negative numbers.\<close>

definition digit_char :: "nat \<Rightarrow> char" where
  "digit_char d = ''0123456789'' ! d"

function str_nat :: "nat \<Rightarrow> string" where
  "str_nat n = (if n < 10 then [digit_char n] else str_nat (n div 10) @ [digit_char (n mod 10)])"
  by pat_completeness auto
termination
  by (relation "measure id") auto

declare str_nat.simps [simp del]

definition str_int :: "int \<Rightarrow> string" where
  "str_int i = (if i < 0 then CHR ''-'' # str_nat (nat (- i)) else str_nat (nat i))"

text \<open>
  The values \<open>json.loads\<close> produces and \<open>json.dumps\<close> consumes. A \<open>dict\<close> is an
  association list read with \<open>map_of\<close>.
\<close>

datatype json =
    JNull
  | JBool bool
  | JInt int
  | JFloat rat
  | JStr string
  | JArr "json list"
  | JObj "(string \<times> json) list"

text \<open>\<open>type(v).__name__\<close>, as it appears in the text of an \<open>AttributeError\<close>.\<close>

fun type_name :: "json \<Rightarrow> string" where
  "type_name JNull = ''NoneType''"
| "type_name (JBool _) = ''bool''"
| "type_name (JInt _) = ''int''"
| "type_name (JFloat _) = ''float''"
| "type_name (JStr _) = ''str''"
| "type_name (JArr _) = ''list''"
| "type_name (JObj _) = ''dict''"

definition no_attribute :: "json \<Rightarrow> string \<Rightarrow> string" where
  "no_attribute v a =
     [CHR 0x27] @ type_name v @ [CHR 0x27] @ '' object has no attribute '' @ [CHR 0x27] @ a @ [CHR 0x27]"

text \<open>\<open>message.get(k, dflt)\<close>.\<close>

definition dict_get :: "(string \<times> json) list \<Rightarrow> string \<Rightarrow> json \<Rightarrow> json" where
  "dict_get kv k dflt = (case map_of kv k of Some v \<Rightarrow> v | None \<Rightarrow> dflt)"

text \<open>
  \<open>message.get(k, '').strip()\<close>: the stripped text, or the text of the
  \<open>AttributeError\<close> raised when the value is not a string.
\<close>

definition get_stripped :: "(string \<times> json) list \<Rightarrow> string \<Rightarrow> string + string" where
  "get_stripped kv k =
     (case dict_get kv k (JStr []) of
        JStr s \<Rightarrow> Inr (strip s)
      | v \<Rightarrow> Inl (no_attribute v ''strip''))"

section \<open>The database, the files and the counters\<close>

text \<open>
  The tables of \<open>1_setup_database.py\<close>. \<open>created_at\<close> holds the text of SQLite's
  \<open>CURRENT_TIMESTAMP\<close> (\<open>YYYY-MM-DD HH:MM:SS\<close>), which SQLite compares as text:
  the lexicographic order of strings.
\<close>

record department =
  dept_id :: int
  dept_name :: string
  email :: string
  password_hash :: string

record entry =
  entry_id :: int
  entry_dept_id :: int
  entry_type :: string
  data_content :: string
  created_at :: string

text \<open>
  A cell of a CSV row as \<open>csv.writer\<close> receives it: a string, an integer, or a
  percentage (\<open>CPct q\<close> is the text \<open>f'{q:.1f}%'\<close>).
\<close>

datatype cell = CStr string | CInt int | CPct rat

type_synonym csv_rows = "cell list list"

text \<open>
  Everything the server process shares between its connections: the three tables of
  \<open>college_data.db\<close> (with the \<open>AUTOINCREMENT\<close> sequence of \<open>data_entries\<close>),
  the files of the working directory, and \<open>self.stats\<close>.
\<close>

record world =
  departments :: "department list"
  data_entries :: "entry list"
  entry_seq :: int
  system_logs :: "(string \<times> string) list"
  files :: "string \<Rightarrow> csv_rows option"
  stat_connections :: int
  stat_data_entries :: int
  stat_exports :: int

text \<open>
  What the libraries compute: \<open>hashlib.sha256(s.encode()).hexdigest()\<close> and
  \<open>json.loads\<close> (\<open>Inl\<close> carries the text of the \<open>JSONDecodeError\<close>).
\<close>

record env =
  sha256_hex :: "string \<Rightarrow> string"
  json_loads :: "string \<Rightarrow> string + json"

text \<open>
  What the operating system answers during one request: the clock in the three forms
  the code reads it, and whether \<open>open(name, 'w')\<close> succeeds (\<open>Some e\<close> is the text
  of the exception it raises).
\<close>

record io =
  current_timestamp :: string
  strftime_compact :: string
  strftime_pretty :: string
  open_error :: "string \<Rightarrow> string option"

text \<open>\<open>log_activity\<close>: the row inserted into \<open>system_logs\<close> (the printed line is not modelled).\<close>

definition log_activity :: "string \<Rightarrow> world \<Rightarrow> world" where
  "log_activity message w = w\<lparr>system_logs := system_logs w @ [(''INFO'', message)]\<rparr>"

section \<open>Authentication\<close>

datatype auth_result = Auth_ok int string | Auth_fail string

text \<open>
  \<open>authenticate_department\<close>: \<open>fetchone\<close> returns the first row whose email and
  password hash both equal the arguments.
\<close>

definition authenticate_department :: "env \<Rightarrow> string \<Rightarrow> string \<Rightarrow> world \<Rightarrow> world \<times> auth_result" where
  "authenticate_department ev em pw w =
     (case find (\<lambda>d. email d = em \<and> password_hash d = sha256_hex ev pw) (departments w) of
        Some d \<Rightarrow>
          (log_activity (''Successful login: '' @ dept_name d @ '' ('' @ em @ '')'') w,
           Auth_ok (dept_id d) (dept_name d))
      | None \<Rightarrow>
          (log_activity (''Failed login attempt: '' @ em) w, Auth_fail ''Invalid credentials''))"

section \<open>Queries\<close>

text \<open>
  \<open>FROM data_entries de JOIN departments d ON de.dept_id = d.dept_id\<close>: one row for
  each entry and each department with the entry's \<open>dept_id\<close>.
\<close>

definition entries_join_departments :: "world \<Rightarrow> (entry \<times> department) list" where
  "entries_join_departments w =
     [(e, d). e \<leftarrow> data_entries w, d \<leftarrow> departments w, entry_dept_id e = dept_id d]"

text \<open>
  \<open>ORDER BY de.created_at DESC\<close>. SQL leaves the order of rows with equal timestamps
  open; the model keeps them in table order (a stable sort, descending).
\<close>

definition order_by_created_desc :: "(entry \<times> department) list \<Rightarrow> (entry \<times> department) list" where
  "order_by_created_desc rows = rev (sort_key (\<lambda>r. created_at (fst r)) (rev rows))"

text \<open>\<open>LIMIT n\<close>: SQLite puts no upper bound on the number of rows when \<open>n\<close> is negative.\<close>

definition sql_limit :: "int \<Rightarrow> 'a list \<Rightarrow> 'a list" where
  "sql_limit n rows = (if n < 0 then rows else take (nat n) rows)"

record recent_entry =
  recent_dept_name :: string
  recent_entry_type :: string
  content_preview :: string
  recent_created_at :: string

text \<open>
  The query of \<open>get_recent_entries\<close>, which both exports repeat with \<open>LIMIT 10\<close>:
  \<open>SUBSTR(de.data_content, 1, 100)\<close> is the first 100 characters.
\<close>

definition recent_query :: "int \<Rightarrow> world \<Rightarrow> recent_entry list" where
  "recent_query limit w =
     map (\<lambda>r. \<lparr>recent_dept_name = dept_name (snd r),
                recent_entry_type = entry_type (fst r),
                content_preview = take 100 (data_content (fst r)),
                recent_created_at = created_at (fst r)\<rparr>)
       (sql_limit limit (order_by_created_desc (entries_join_departments w)))"

definition get_recent_entries :: "int \<Rightarrow> world \<Rightarrow> recent_entry list" where
  "get_recent_entries limit w = recent_query limit w"

text \<open>\<open>SELECT COUNT(*) FROM data_entries\<close> and \<open>SELECT COUNT(DISTINCT dept_id) FROM data_entries\<close>.\<close>

definition total_entries :: "world \<Rightarrow> int" where
  "total_entries w = int (length (data_entries w))"

definition active_departments :: "world \<Rightarrow> int" where
  "active_departments w = int (length (remdups (map entry_dept_id (data_entries w))))"

text \<open>
  \<open>SELECT entry_type, COUNT(*) FROM data_entries GROUP BY entry_type ORDER BY COUNT(*) DESC\<close>:
  one row for each distinct category, with the number of entries that carry it.
\<close>

definition type_stats :: "world \<Rightarrow> (string \<times> int) list" where
  "type_stats w =
     sort_key (\<lambda>r. - snd r)
       (map (\<lambda>t. (t, int (count_list (map entry_type (data_entries w)) t)))
          (remdups (map entry_type (data_entries w))))"

text \<open>
  \<open>(count / total_entries * 100) if total_entries > 0 else 0\<close>. Python computes it in
  floating point; the model keeps the exact quotient.
\<close>

definition percentage :: "int \<Rightarrow> int \<Rightarrow> rat" where
  "percentage cnt total_cnt = (if total_cnt > 0 then of_int cnt / of_int total_cnt * 100 else 0)"

text \<open>The category, count and percentage that the export writes for each row of \<open>type_stats\<close>.\<close>

definition category_breakdown :: "world \<Rightarrow> (string \<times> int \<times> rat) list" where
  "category_breakdown w = map (\<lambda>r. (fst r, snd r, percentage (snd r) (total_entries w))) (type_stats w)"

fun max_opt :: "string list \<Rightarrow> string option" where
  "max_opt [] = None"
| "max_opt (t # ts) = Some (fold max ts t)"

fun min_opt :: "string list \<Rightarrow> string option" where
  "min_opt [] = None"
| "min_opt (t # ts) = Some (fold min ts t)"

text \<open>
  The department summary of the formatted report (\<open>departments d LEFT JOIN data_entries de\<close>,
  grouped by department, \<open>ORDER BY total_entries DESC\<close>): name, \<open>COUNT(de.entry_id)\<close>,
  \<open>MAX(de.created_at)\<close> and \<open>MIN(de.created_at)\<close>. \<open>dept_id\<close> is the primary key, so
  every department is a group of its own.
\<close>

definition dept_stats :: "world \<Rightarrow> (string \<times> int \<times> string option \<times> string option) list" where
  "dept_stats w =
     sort_key (\<lambda>r. - fst (snd r))
       (map (\<lambda>d. let ts = map created_at (filter (\<lambda>e. entry_dept_id e = dept_id d) (data_entries w))
                  in (dept_name d, int (length ts), max_opt ts, min_opt ts))
          (departments w))"

section \<open>The CSV exports\<close>

definition export_header :: "io \<Rightarrow> string \<Rightarrow> world \<Rightarrow> csv_rows" where
  "export_header i filename w =
     [[CStr ''COLLEGE EXTENSION APPLICATION - DATA EXPORT''],
      [CStr (replicate 60 CHR ''='')],
      [CStr ''Export Information''],
      [CStr ''Export Date/Time'', CStr (strftime_pretty i)],
      [CStr ''Total Records'', CInt (total_entries w)],
      [CStr ''Active Departments'', CInt (active_departments w)],
      [CStr ''Export File'', CStr filename],
      []]"

definition category_rows :: "world \<Rightarrow> csv_rows" where
  "category_rows w =
     [[CStr ''DATA SUMMARY BY CATEGORY''],
      [CStr (replicate 30 CHR ''-'')],
      [CStr ''Category'', CStr ''Count'', CStr ''Percentage'']]
     @ map (\<lambda>r. [CStr (fst r), CInt (fst (snd r)), CPct (snd (snd r))]) (category_breakdown w)
     @ [[]]"

definition recent_activity_rows :: "recent_entry list \<Rightarrow> csv_rows" where
  "recent_activity_rows recent_activity =
     [[CStr ''RECENT ACTIVITY (Last 10 Entries)''],
      [CStr (replicate 50 CHR ''-'')],
      [CStr ''Date/Time'', CStr ''Department'', CStr ''Category'', CStr ''Content Preview'']]
     @ map (\<lambda>r. [CStr (recent_created_at r), CStr (recent_dept_name r),
                   CStr (recent_entry_type r), CStr (content_preview r @ ''...'')])
         recent_activity"

text \<open>
  The detailed section of the auto-export. The query selects
  \<open>(dept_name, email, entry_type, data_content, created_at, entry_id)\<close> and the loop unpacks
  each row as \<open>(entry_id, dept_name, email, entry_type, data_content, created_at)\<close>, so the
  text it cuts after 200 characters is the timestamp, and the row it writes has the
  columns in the order of the query.
\<close>

definition detail_rows :: "world \<Rightarrow> csv_rows" where
  "detail_rows w =
     [[CStr ''DETAILED DATA EXPORT''],
      [CStr (replicate 50 CHR ''-'')],
      [CStr ''Entry ID'', CStr ''Department'', CStr ''Email'', CStr ''Category'', CStr ''Content'',
       CStr ''Created At'']]
     @ map (\<lambda>r. [CStr (dept_name (snd r)), CStr (email (snd r)), CStr (entry_type (fst r)),
                   CStr (data_content (fst r)),
                   CStr (if length (created_at (fst r)) > 200
                         then take 200 (created_at (fst r)) @ ''...'' else created_at (fst r)),
                   CInt (entry_id (fst r))])
         (order_by_created_desc (entries_join_departments w))"

text \<open>
  \<open>cursor.execute\<close> on a cursor whose connection is closed or not: on a closed connection
  sqlite3 raises \<open>ProgrammingError\<close> with this text.
\<close>

definition cursor_execute :: "bool \<Rightarrow> 'a \<Rightarrow> string + 'a" where
  "cursor_execute conn_closed rows =
     (if conn_closed then Inl ''Cannot operate on a closed database.'' else Inr rows)"

text \<open>
  \<open>auto_export_enhanced_csv\<close>. The function calls \<open>conn.close()\<close> after the summary
  queries and runs the recent-activity query on the same cursor inside the \<open>with open\<close>
  block, after the header and the category summary are written: \<open>cursor_execute True\<close>.
  An exception leaves the file with the rows written so far; every exception is caught,
  logged and turned into \<open>None\<close>.
\<close>

definition auto_export_enhanced_csv :: "io \<Rightarrow> world \<Rightarrow> world \<times> string option" where
  "auto_export_enhanced_csv i w =
     (let filename = ''college_data_export_'' @ strftime_compact i @ ''.csv'';
          latest_filename = ''latest_college_data_export.csv'';
          written = export_header i filename w @ category_rows w
      in case open_error i filename of
           Some e \<Rightarrow> (log_activity (''Error creating CSV export: '' @ e) w, None)
         | None \<Rightarrow>
             (case cursor_execute True (recent_query 10 w) of
                Inl e \<Rightarrow>
                  (log_activity (''Error creating CSV export: '' @ e)
                     (w\<lparr>files := (files w)(filename \<mapsto> written)\<rparr>), None)
              | Inr recent_activity \<Rightarrow>
                  (let rows = written @ recent_activity_rows recent_activity @ [[]] @ detail_rows w
                   in (log_activity (''Enhanced CSV export completed: '' @ filename)
                         (w\<lparr>files := (files w)(filename \<mapsto> rows, latest_filename \<mapsto> rows)\<rparr>),
                       Some filename))))"

text \<open>\<open>x or 'N/A'\<close> for a timestamp that may be \<open>None\<close>.\<close>

definition or_na :: "string option \<Rightarrow> string" where
  "or_na x = (case x of None \<Rightarrow> ''N/A'' | Some t \<Rightarrow> if t = [] then ''N/A'' else t)"

definition report_rows :: "io \<Rightarrow> world \<Rightarrow> csv_rows" where
  "report_rows i w =
     [[CStr ''COLLEGE EXTENSION APPLICATION - COMPREHENSIVE REPORT''],
      [CStr (replicate 70 CHR ''='')],
      [CStr ''Report Generated'', CStr (strftime_pretty i)],
      [],
      [CStr ''DEPARTMENT ACTIVITY SUMMARY''],
      [CStr (replicate 40 CHR ''-'')],
      [CStr ''Department'', CStr ''Total Entries'', CStr ''First Activity'', CStr ''Last Activity'',
       CStr ''Status'']]
     @ map (\<lambda>(name, total_cnt, last_activity, first_activity).
              [CStr name, CInt total_cnt,
               CStr (or_na first_activity), CStr (or_na last_activity),
               CStr (if total_cnt > 0 then ''Active'' else ''No Data'')])
         (dept_stats w)
     @ [[]]
     @ recent_activity_rows (recent_query 10 w)"

text \<open>
  \<open>export_formatted_report(filename='college_report.csv')\<close>: the connection stays open
  until the file is written.
\<close>

definition export_formatted_report :: "io \<Rightarrow> string \<Rightarrow> world \<Rightarrow> world \<times> string option" where
  "export_formatted_report i filename w =
     (case open_error i filename of
        Some e \<Rightarrow> (log_activity (''Error creating report: '' @ e) w, None)
      | None \<Rightarrow> (w\<lparr>files := (files w)(filename \<mapsto> report_rows i w)\<rparr>, Some filename))"

section \<open>Saving an entry\<close>

datatype save_result = Saved int string | Save_error string

text \<open>
  The rowid an \<open>AUTOINCREMENT\<close> column gives the next row: one more than the largest
  rowid the table has ever held.
\<close>

definition next_rowid :: "world \<Rightarrow> int" where
  "next_rowid w = fold max (map entry_id (data_entries w)) (entry_seq w) + 1"

text \<open>
  What \<open>save_department_data\<close> does with the result of the auto-export: it chooses a
  log line. (\<open>auto_export_enhanced_csv\<close> catches every exception itself, so the
  handler for an exception of the export is never entered.)
\<close>

definition log_auto_export :: "world \<times> string option \<Rightarrow> world" where
  "log_auto_export exported =
     (case snd exported of
        Some csv_result \<Rightarrow> log_activity (''CSV auto-export successful: '' @ csv_result) (fst exported)
      | None \<Rightarrow> log_activity ''CSV auto-export failed'' (fst exported))"

text \<open>
  \<open>save_department_data\<close>: the validation, the lookup of the department, the insert with
  \<open>CURRENT_TIMESTAMP\<close>, the counter, and the auto-export.
\<close>

definition save_department_data :: "io \<Rightarrow> int \<Rightarrow> string \<Rightarrow> string \<Rightarrow> world \<Rightarrow> world \<times> save_result" where
  "save_department_data i dept etype content w =
     (if dept = 0 then (w, Save_error ''Department ID is required'')
      else if etype = [] \<or> strip etype = [] then (w, Save_error ''Entry type is required'')
      else if content = [] \<or> strip content = [] then (w, Save_error ''Data content is required'')
      else if length content > 10000 then
        (w, Save_error ''Content too long (max 10,000 characters)'')
      else
        (case find (\<lambda>d. dept_id d = dept) (departments w) of
           None \<Rightarrow> (w, Save_error ''Invalid department ID'')
         | Some d \<Rightarrow>
             (let new_id = next_rowid w;
                  row = \<lparr>entry_id = new_id, entry_dept_id = dept, entry_type = strip etype,
                         data_content = strip content, created_at = current_timestamp i\<rparr>;
                  w1 = w\<lparr>data_entries := data_entries w @ [row], entry_seq := new_id,
                          stat_data_entries := stat_data_entries w + 1\<rparr>;
                  w2 = log_activity (''Data saved successfully: Entry ID '' @ str_int new_id
                         @ '', Department: '' @ dept_name d @ '', Type: '' @ etype) w1;
                  w3 = log_auto_export (auto_export_enhanced_csv i w2)
              in (w3, Saved new_id (dept_name d)))))"

section \<open>One connection\<close>

text \<open>
  The local variables of \<open>handle_client\<close>: the peer's address, \<open>authenticated\<close> and
  \<open>dept_info\<close> (the \<open>dept_id\<close> and \<open>dept_name\<close> of the successful login).
\<close>

record session =
  address :: "string \<times> nat"
  authenticated :: bool
  dept_info :: "(int \<times> string) option"

text \<open>
  How one pass through the loop of \<open>handle_client\<close> ends: the loop goes on, it is left
  by \<open>break\<close>, or an exception reaches the handler around the loop.
\<close>

datatype flow = Continue | Break | Raised string

type_synonym outcome = "session \<times> world \<times> json list \<times> flow"

definition error_response :: "string \<Rightarrow> json" where
  "error_response m = JObj [(''status'', JStr ''error''), (''message'', JStr m)]"

definition auth_json :: "int \<Rightarrow> string \<Rightarrow> json" where
  "auth_json did name = JObj [(''success'', JBool True), (''dept_id'', JInt did), (''dept_name'', JStr name)]"

definition recent_json :: "recent_entry \<Rightarrow> json" where
  "recent_json r =
     JObj [(''dept_name'', JStr (recent_dept_name r)), (''entry_type'', JStr (recent_entry_type r)),
           (''content_preview'', JStr (content_preview r)), (''created_at'', JStr (recent_created_at r))]"

definition stats_json :: "world \<Rightarrow> json" where
  "stats_json w =
     JObj [(''connections'', JInt (stat_connections w)), (''data_entries'', JInt (stat_data_entries w)),
           (''exports'', JInt (stat_exports w))]"

text \<open>The \<open>login\<close> branch.\<close>

definition handle_login :: "env \<Rightarrow> (string \<times> json) list \<Rightarrow> session \<Rightarrow> world \<Rightarrow> outcome" where
  "handle_login ev kv s w =
     (case get_stripped kv ''email'' of
        Inl e \<Rightarrow> (s, w, [], Raised e)
      | Inr em \<Rightarrow>
          (case get_stripped kv ''password'' of
             Inl e \<Rightarrow> (s, w, [], Raised e)
           | Inr pw \<Rightarrow>
               if em = [] \<or> pw = [] then
                 (s, w, [error_response ''Email and password required''], Continue)
               else
                 (case authenticate_department ev em pw w of
                    (w', Auth_ok did name) \<Rightarrow>
                      (s\<lparr>authenticated := True, dept_info := Some (did, name)\<rparr>, w',
                       [JObj [(''status'', JStr ''success''),
                              (''message'', JStr (''Welcome '' @ name @ ''!'')),
                              (''dept_info'', auth_json did name)]],
                       Continue)
                  | (w', Auth_fail m) \<Rightarrow> (s, w', [error_response m], Continue))))"

text \<open>The \<open>submit_data\<close> branch.\<close>

definition handle_submit :: "io \<Rightarrow> (string \<times> json) list \<Rightarrow> session \<Rightarrow> world \<Rightarrow> outcome" where
  "handle_submit i kv s w =
     (case get_stripped kv ''entry_type'' of
        Inl e \<Rightarrow> (s, w, [], Raised e)
      | Inr etype \<Rightarrow>
          (case get_stripped kv ''data_content'' of
             Inl e \<Rightarrow> (s, w, [], Raised e)
           | Inr content \<Rightarrow>
               if etype = [] \<or> content = [] then
                 (s, w, [error_response ''Both category and content are required''], Continue)
               else
                 (case dept_info s of
                    None \<Rightarrow> (s, w, [], Raised (CHR 0x27 # ''NoneType'' @ CHR 0x27 # '' object is not subscriptable''))
                  | Some (did, dname) \<Rightarrow>
                      (case save_department_data i did etype content w of
                         (w', Saved eid name) \<Rightarrow>
                           (s, log_activity (''Data submission successful: '' @ etype @ '' by '' @ dname) w',
                            [JObj [(''status'', JStr ''success''),
                                   (''message'', JStr (''Data saved successfully! Entry ID: '' @ str_int eid
                                      @ ''. CSV export completed for data analysis.'')),
                                   (''entry_id'', JInt eid),
                                   (''dept_name'', JStr name)]],
                            Continue)
                       | (w', Save_error m) \<Rightarrow>
                           (s, log_activity (''Data submission failed: '' @ m) w',
                            [error_response m], Continue)))))"

text \<open>The \<open>export_csv\<close> branch.\<close>

definition handle_export :: "io \<Rightarrow> session \<Rightarrow> world \<Rightarrow> outcome" where
  "handle_export i s w =
     (case export_formatted_report i ''college_report.csv'' w of
        (w', Some filename) \<Rightarrow>
          (s, w',
           [JObj [(''status'', JStr ''success''),
                  (''message'', JStr (''Enhanced report exported to '' @ filename)),
                  (''filename'', JStr filename)]],
           Continue)
      | (w', None) \<Rightarrow> (s, w', [error_response ''Export failed''], Continue))"

text \<open>
  The dispatch on \<open>action\<close>, in the order of the \<open>if\<close>/\<open>elif\<close> chain. A parsed
  message that is not a \<open>dict\<close> has no \<open>get\<close>.
\<close>

definition handle_message :: "env \<Rightarrow> io \<Rightarrow> json \<Rightarrow> session \<Rightarrow> world \<Rightarrow> outcome" where
  "handle_message ev i message s w =
     (case message of
        JObj kv \<Rightarrow>
          (let action = dict_get kv ''action'' JNull in
           if action = JStr ''login'' \<and> \<not> authenticated s then handle_login ev kv s w
           else if action = JStr ''submit_data'' \<and> authenticated s then handle_submit i kv s w
           else if action = JStr ''get_recent'' \<and> authenticated s then
             (s, w,
              [JObj [(''status'', JStr ''success''),
                     (''data'', JArr (map recent_json (get_recent_entries 10 w)))]],
              Continue)
           else if action = JStr ''export_csv'' \<and> authenticated s then handle_export i s w
           else if action = JStr ''get_stats'' \<and> authenticated s then
             (s, w, [JObj [(''status'', JStr ''success''), (''stats'', stats_json w)]], Continue)
           else if action = JStr ''disconnect'' then (s, w, [], Break)
           else (s, w, [error_response ''Invalid action or authentication required''], Continue))
      | _ \<Rightarrow> (s, w, [], Raised (no_attribute message ''get'')))"

text \<open>
  What \<open>client_socket.recv(1024).decode('utf-8')\<close> gives one pass of the loop: a text
  (empty when the peer has closed), a timeout after 60 seconds, or a reset connection.
\<close>

datatype received = Data string | Timeout | Connection_reset

text \<open>\<open>f"{address}"\<close> for the pair of host and port.\<close>

definition repr_address :: "string \<times> nat \<Rightarrow> string" where
  "repr_address a = ''('' @ [CHR 0x27] @ fst a @ [CHR 0x27] @ '', '' @ str_nat (snd a) @ '')''"

text \<open>
  One pass of the \<open>while True\<close> loop. Each text received is parsed on its own: what
  \<open>json.loads\<close> rejects is answered with an error, and nothing of it is kept.
\<close>

definition handle_received :: "env \<Rightarrow> io \<Rightarrow> received \<Rightarrow> session \<Rightarrow> world \<Rightarrow> outcome" where
  "handle_received ev i r s w =
     (case r of
        Timeout \<Rightarrow>
          (s, log_activity (''Client '' @ repr_address (address s) @ '' timed out after 60 seconds'') w,
           [], Break)
      | Connection_reset \<Rightarrow>
          (s, log_activity (''Client '' @ repr_address (address s) @ '' disconnected unexpectedly'') w,
           [], Break)
      | Data data \<Rightarrow>
          if data = [] then (s, w, [], Break)
          else
            (case json_loads ev data of
               Inl e \<Rightarrow> (s, w, [error_response (''Invalid JSON format: '' @ e)], Continue)
             | Inr message \<Rightarrow> handle_message ev i message s w))"

section \<open>The server process\<close>

text \<open>
  The beginning of \<open>handle_client\<close> (the connection counter, the log line, the fresh
  local variables) and its end (the handler around the loop logs an exception; the
  \<open>finally\<close> block logs that the connection is closed).
\<close>

definition open_connection :: "string \<times> nat \<Rightarrow> world \<Rightarrow> session \<times> world" where
  "open_connection a w =
     (\<lparr>address = a, authenticated = False, dept_info = None\<rparr>,
      log_activity (''New connection from '' @ fst a @ '':'' @ str_nat (snd a))
        (w\<lparr>stat_connections := stat_connections w + 1\<rparr>))"

definition close_connection :: "flow \<Rightarrow> session \<Rightarrow> world \<Rightarrow> world" where
  "close_connection fl s w =
     log_activity (''Connection with '' @ repr_address (address s) @ '' closed'')
       (case fl of
          Raised e \<Rightarrow> log_activity (''Client handler error for '' @ repr_address (address s) @ '': '' @ e) w
        | _ \<Rightarrow> w)"

text \<open>
  The process: the shared world and the connections that are open, each with the local
  state of its handler thread. \<open>new_server\<close> is \<open>EnhancedCollegeServer()\<close> started on
  a database and a directory as they are: the counters start at zero.
\<close>

record server =
  shared :: world
  sessions :: "nat \<Rightarrow> session option"

definition new_server :: "world \<Rightarrow> server" where
  "new_server w =
     \<lparr>shared = w\<lparr>stat_connections := 0, stat_data_entries := 0, stat_exports := 0\<rparr>,
      sessions = Map.empty\<rparr>"

text \<open>
  What happens to the process: a connection is accepted, or the handler of connection
  \<open>c\<close> gets the result of its next \<open>recv\<close>. The steps of different connections
  interleave in any order.
\<close>

datatype event = Accept nat "string \<times> nat" | Receive nat io received

definition server_step :: "env \<Rightarrow> event \<Rightarrow> server \<Rightarrow> server \<times> (nat \<times> json) list" where
  "server_step ev e sv =
     (case e of
        Accept c a \<Rightarrow>
          (case sessions sv c of
             Some _ \<Rightarrow> (sv, [])
           | None \<Rightarrow>
               (sv\<lparr>shared := snd (open_connection a (shared sv)),
                   sessions := (sessions sv)(c \<mapsto> fst (open_connection a (shared sv)))\<rparr>, []))
      | Receive c i r \<Rightarrow>
          (case sessions sv c of
             None \<Rightarrow> (sv, [])
           | Some s \<Rightarrow>
               (case handle_received ev i r s (shared sv) of
                  (s', w', out, fl) \<Rightarrow>
                    (if fl = Continue
                     then sv\<lparr>shared := w', sessions := (sessions sv)(c \<mapsto> s')\<rparr>
                     else sv\<lparr>shared := close_connection fl s' w', sessions := (sessions sv)(c := None)\<rparr>,
                     map (Pair c) out))))"

fun run :: "env \<Rightarrow> event list \<Rightarrow> server \<Rightarrow> server \<times> (nat \<times> json) list" where
  "run ev [] sv = (sv, [])"
| "run ev (e # es) sv =
     (case server_step ev e sv of
        (sv1, out1) \<Rightarrow> (case run ev es sv1 of (sv2, out2) \<Rightarrow> (sv2, out1 @ out2)))"

text \<open>\<open>response['stats']['exports']\<close> of a response that has it.\<close>

definition reported_exports :: "json \<Rightarrow> json option" where
  "reported_exports r =
     (case r of
        JObj kv \<Rightarrow>
          (case map_of kv ''stats'' of
             Some (JObj st) \<Rightarrow> map_of st ''exports''
           | _ \<Rightarrow> None)
      | _ \<Rightarrow> None)"

section \<open>The seeded database and an environment for examples\<close>

text \<open>
  \<open>add_sample_departments\<close> of \<open>1_setup_database.py\<close> on an empty table: the rows get
  the ids 1 to 8, and the password is stored as its digest.
\<close>

definition sample_departments :: "env \<Rightarrow> department list" where
  "sample_departments ev =
     map (\<lambda>(n, name, em, pw). \<lparr>dept_id = n, dept_name = name, email = em, password_hash = sha256_hex ev pw\<rparr>)
       [(1, ''Computer Science'', ''cs@college.edu'', ''cs_password123''),
        (2, ''Mathematics'', ''math@college.edu'', ''math_password123''),
        (3, ''Physics'', ''physics@college.edu'', ''physics_password123''),
        (4, ''Chemistry'', ''chemistry@college.edu'', ''chem_password123''),
        (5, ''Biology'', ''bio@college.edu'', ''bio_password123''),
        (6, ''English'', ''english@college.edu'', ''eng_password123''),
        (7, ''Engineering'', ''eng@college.edu'', ''eng_password123''),
        (8, ''Business'', ''business@college.edu'', ''business_password123'')]"

definition seeded_world :: "env \<Rightarrow> world" where
  "seeded_world ev =
     \<lparr>departments = sample_departments ev, data_entries = [], entry_seq = 0, system_logs = [],
      files = Map.empty, stat_connections = 0, stat_data_entries = 0, stat_exports = 0\<rparr>"

text \<open>
  An environment for the examples. The digest is a stand-in for SHA-256 (no example
  depends on which digest it is), and \<open>json.loads\<close> is given on the texts the
  examples send, with the error texts of Python's parser; any other text counts as
  rejected.
\<close>

definition demo_loads :: "string \<Rightarrow> string + json" where
  "demo_loads t =
     (case map_of
        [(''{\"action\": \"login\", \"email\": \"cs@college.edu\", \"password\": \"cs_password123\"}'',
          Inr (JObj [(''action'', JStr ''login''), (''email'', JStr ''cs@college.edu''),
                     (''password'', JStr ''cs_password123'')])),
         (''{\"action\": \"submit_data\", \"entry_type\": \"Research\", \"data_content\": \"Grant report\"}'',
          Inr (JObj [(''action'', JStr ''submit_data''), (''entry_type'', JStr ''Research''),
                     (''data_content'', JStr ''Grant report'')])),
         (''{\"action\": \"export_csv\"}'', Inr (JObj [(''action'', JStr ''export_csv'')])),
         (''{\"action\": \"get_stats\"}'', Inr (JObj [(''action'', JStr ''get_stats'')])),
         (''{\"action\": \"get_st'', Inl ''Unterminated string starting at: line 1 column 12 (char 11)''),
         (''ats\"}'', Inl ''Expecting value: line 1 column 1 (char 0)''),
         (''hello'', Inl ''Expecting value: line 1 column 1 (char 0)'')] t of
        Some r \<Rightarrow> r
      | None \<Rightarrow> Inl ''Expecting value: line 1 column 1 (char 0)'')"

definition demo_env :: env where
  "demo_env = \<lparr>sha256_hex = (\<lambda>s. ''sha256:'' @ s), json_loads = demo_loads\<rparr>"

definition demo_io :: io where
  "demo_io =
     \<lparr>current_timestamp = ''2024-01-01 12:00:00'', strftime_compact = ''20240101_120000'',
      strftime_pretty = ''2024-01-01 12:00:00'', open_error = (\<lambda>_. None)\<rparr>"

definition demo_io_later :: io where
  "demo_io_later =
     \<lparr>current_timestamp = ''2024-01-02 09:30:00'', strftime_compact = ''20240102_093000'',
      strftime_pretty = ''2024-01-02 09:30:00'', open_error = (\<lambda>_. None)\<rparr>"

text \<open>The same moment on a full disk: no file can be opened for writing.\<close>

definition demo_io_disk_full :: io where
  "demo_io_disk_full =
     demo_io\<lparr>open_error := (\<lambda>name. Some (''[Errno 28] No space left on device: '' @ [CHR 0x27] @ name @ [CHR 0x27]))\<rparr>"

text \<open>The seeded database with three entries in it.\<close>

definition demo_world :: world where
  "demo_world =
     (seeded_world demo_env)
       \<lparr>data_entries :=
          [\<lparr>entry_id = 1, entry_dept_id = 1, entry_type = ''Student Records'',
            data_content = ''Enrolment list'', created_at = ''2024-01-01 09:00:00''\<rparr>,
           \<lparr>entry_id = 2, entry_dept_id = 2, entry_type = ''Research'',
            data_content = ''Grant report'', created_at = ''2024-01-01 11:00:00''\<rparr>,
           \<lparr>entry_id = 3, entry_dept_id = 1, entry_type = ''Student Records'',
            data_content = ''Exam results'', created_at = ''2024-01-01 10:00:00''\<rparr>],
        entry_seq := 3\<rparr>"

definition fresh_session :: session where
  "fresh_session = \<lparr>address = (''127.0.0.1'', 50000), authenticated = False, dept_info = None\<rparr>"

definition cs_session :: session where
  "cs_session = \<lparr>address = (''127.0.0.1'', 50000), authenticated = True,
                  dept_info = Some (1, ''Computer Science'')\<rparr>"

text \<open>
  A run for the examples: one client connects, logs in, submits an entry, asks for the
  formatted report and for the counters.
\<close>

definition demo_events :: "event list" where
  "demo_events =
     [Accept 0 (''127.0.0.1'', 50000),
      Receive 0 demo_io (Data ''{\"action\": \"login\", \"email\": \"cs@college.edu\", \"password\": \"cs_password123\"}''),
      Receive 0 demo_io (Data ''{\"action\": \"submit_data\", \"entry_type\": \"Research\", \"data_content\": \"Grant report\"}''),
      Receive 0 demo_io_later (Data ''{\"action\": \"export_csv\"}''),
      Receive 0 demo_io_later (Data ''{\"action\": \"get_stats\"}'')]"

text \<open>A response reports the exports counter as \<open>n\<close>, or does not report it at all.\<close>

definition exports_reported_as :: "int \<Rightarrow> json \<Rightarrow> bool" where
  "exports_reported_as n r = (reported_exports r = None \<or> reported_exports r = Some (JInt n))"

section \<open>Basic facts\<close>

lemma strip_Nil: "strip [] = []"
  by (simp add: strip_def)

lemma system_logs_log_activity: "system_logs (log_activity m w) = system_logs w @ [(''INFO'', m)]"
  by (simp add: log_activity_def)

lemma log_activity_frame:
  "departments (log_activity m w) = departments w"
  "data_entries (log_activity m w) = data_entries w"
  "entry_seq (log_activity m w) = entry_seq w"
  "files (log_activity m w) = files w"
  "stat_connections (log_activity m w) = stat_connections w"
  "stat_data_entries (log_activity m w) = stat_data_entries w"
  "stat_exports (log_activity m w) = stat_exports w"
  by (simp_all add: log_activity_def)

section \<open>Requests the session state does not allow\<close>

text \<open>
  Claim C7. A \<open>login\<close> request on an authenticated session, and a \<open>submit_data\<close>,
  \<open>get_recent\<close>, \<open>export_csv\<close> or \<open>get_stats\<close> request on an unauthenticated one,
  whatever else the request holds, is answered with the error message
  \<open>Invalid action or authentication required\<close>; the session is returned as it was,
  and so is the whole shared state (tables, files, counters and log), the loop going on.
\<close>

theorem unauthorised_action_rejected:
  assumes "dict_get kv ''action'' JNull = JStr a"
    and "(a = ''login'' \<and> authenticated s)
         \<or> (a \<in> {''submit_data'', ''get_recent'', ''export_csv'', ''get_stats''} \<and> \<not> authenticated s)"
  shows "handle_message ev i (JObj kv) s w =
           (s, w, [error_response ''Invalid action or authentication required''], Continue)"
  using assms by (auto simp: handle_message_def)

theorem unauthorised_action_rejected_witness:
  "handle_message demo_env demo_io (JObj [(''action'', JStr ''login''), (''email'', JStr ''cs@college.edu'')])
     cs_session demo_world =
   (cs_session, demo_world, [error_response ''Invalid action or authentication required''], Continue)
   \<and> handle_message demo_env demo_io (JObj [(''action'', JStr ''submit_data''), (''entry_type'', JStr ''Research''),
         (''data_content'', JStr ''x'')]) fresh_session demo_world =
   (fresh_session, demo_world, [error_response ''Invalid action or authentication required''], Continue)"
  using unauthorised_action_rejected [of "[(''action'', JStr ''login''), (''email'', JStr ''cs@college.edu'')]"
      "''login''" cs_session demo_env demo_io demo_world]
    unauthorised_action_rejected [of "[(''action'', JStr ''submit_data''), (''entry_type'', JStr ''Research''),
         (''data_content'', JStr ''x'')]" "''submit_data''" fresh_session demo_env demo_io demo_world]
  by (simp add: dict_get_def cs_session_def fresh_session_def)

section \<open>The recent entries\<close>

lemma length_sql_limit: "0 \<le> n \<Longrightarrow> length (sql_limit n rows) \<le> nat n"
  by (simp add: sql_limit_def)

lemma length_get_recent_entries: "0 \<le> n \<Longrightarrow> length (get_recent_entries n w) \<le> nat n"
  by (simp add: get_recent_entries_def recent_query_def length_sql_limit)

lemma demo_recent_entries:
  "get_recent_entries 10 demo_world =
     [\<lparr>recent_dept_name = ''Mathematics'', recent_entry_type = ''Research'',
       content_preview = ''Grant report'', recent_created_at = ''2024-01-01 11:00:00''\<rparr>,
      \<lparr>recent_dept_name = ''Computer Science'', recent_entry_type = ''Student Records'',
       content_preview = ''Exam results'', recent_created_at = ''2024-01-01 10:00:00''\<rparr>,
      \<lparr>recent_dept_name = ''Computer Science'', recent_entry_type = ''Student Records'',
       content_preview = ''Enrolment list'', recent_created_at = ''2024-01-01 09:00:00''\<rparr>]"
  by (simp add: get_recent_entries_def recent_query_def sql_limit_def order_by_created_desc_def
      entries_join_departments_def demo_world_def seeded_world_def sample_departments_def)

text \<open>
  Claim C10. On an authenticated session a request whose action is \<open>get_recent\<close> is
  answered from the action alone: whatever other fields the request holds (a \<open>limit\<close>
  among them), the answer is the success response with the result of
  \<open>get_recent_entries\<close> at the limit 10, which has at most 10 elements; session and
  shared state are unchanged.
\<close>

theorem get_recent_ignores_request_fields:
  assumes "dict_get kv ''action'' JNull = JStr ''get_recent''" and "authenticated s"
  shows "handle_message ev i (JObj kv) s w =
           (s, w, [JObj [(''status'', JStr ''success''),
                         (''data'', JArr (map recent_json (get_recent_entries 10 w)))]], Continue)
         \<and> length (get_recent_entries 10 w) \<le> 10"
  using assms length_get_recent_entries [of 10 w] by (simp add: handle_message_def)

theorem get_recent_ignores_request_fields_witness:
  "handle_message demo_env demo_io (JObj [(''action'', JStr ''get_recent''), (''limit'', JInt 1)])
     cs_session demo_world =
   (cs_session, demo_world,
    [JObj [(''status'', JStr ''success''),
           (''data'', JArr (map recent_json (get_recent_entries 10 demo_world)))]], Continue)
   \<and> length (get_recent_entries 10 demo_world) = 3"
  using get_recent_ignores_request_fields [of "[(''action'', JStr ''get_recent''), (''limit'', JInt 1)]"
      cs_session demo_env demo_io demo_world]
  by (simp add: dict_get_def cs_session_def demo_recent_entries)

section \<open>The exports counter\<close>

text \<open>
  The definitions unfolded to run the model on the examples.
\<close>

lemmas demo_defs = demo_events_def new_server_def seeded_world_def sample_departments_def server_step_def
  open_connection_def handle_received_def demo_env_def demo_loads_def handle_message_def dict_get_def
  handle_login_def get_stripped_def strip_def isspace_def authenticate_department_def log_activity_def
  handle_submit_def save_department_data_def next_rowid_def auto_export_enhanced_csv_def demo_io_def
  log_auto_export_def
  demo_io_later_def cursor_execute_def handle_export_def export_formatted_report_def stats_json_def
  error_response_def auth_json_def str_int_def str_nat.simps digit_char_def Let_def

lemma authenticate_department_exports:
  "authenticate_department ev em pw w = (w', r) \<Longrightarrow> stat_exports w' = stat_exports w"
  by (auto simp: authenticate_department_def log_activity_frame split: option.splits)

lemma auto_export_exports:
  "auto_export_enhanced_csv i w = (w', r) \<Longrightarrow> stat_exports w' = stat_exports w"
  by (auto simp: auto_export_enhanced_csv_def cursor_execute_def log_activity_frame Let_def
      split: option.splits)

lemma export_formatted_report_exports:
  "export_formatted_report i f w = (w', r) \<Longrightarrow> stat_exports w' = stat_exports w"
  by (auto simp: export_formatted_report_def log_activity_frame split: option.splits)

lemma save_department_data_exports:
  "save_department_data i dept etype content w = (w', r) \<Longrightarrow> stat_exports w' = stat_exports w"
  using auto_export_exports [OF surjective_pairing]
  by (auto simp: save_department_data_def log_auto_export_def Let_def log_activity_frame
      split: option.splits if_splits)

lemma handle_login_exports:
  "handle_login ev kv s w = (s', w', out, fl) \<Longrightarrow>
     stat_exports w' = stat_exports w \<and> list_all (\<lambda>r. reported_exports r = None) out"
  by (auto simp: handle_login_def reported_exports_def error_response_def
      split: sum.splits if_splits prod.splits auth_result.splits
      dest: authenticate_department_exports)

lemma handle_submit_exports:
  "handle_submit i kv s w = (s', w', out, fl) \<Longrightarrow>
     stat_exports w' = stat_exports w \<and> list_all (\<lambda>r. reported_exports r = None) out"
  by (auto simp: handle_submit_def reported_exports_def error_response_def log_activity_frame
      split: sum.splits if_splits prod.splits save_result.splits option.splits
      dest: save_department_data_exports)

lemma handle_export_exports:
  "handle_export i s w = (s', w', out, fl) \<Longrightarrow>
     stat_exports w' = stat_exports w \<and> list_all (\<lambda>r. reported_exports r = None) out"
  by (auto simp: handle_export_def reported_exports_def error_response_def
      split: prod.splits option.splits dest: export_formatted_report_exports)

lemma list_all_none_reported:
  "list_all (\<lambda>r. reported_exports r = None) out \<Longrightarrow> list_all (exports_reported_as n) out"
  by (induction out) (auto simp: exports_reported_as_def)

lemma reported_exports_stats:
  "reported_exports (JObj [(''status'', JStr ''success''), (''stats'', stats_json w)]) = Some (JInt (stat_exports w))"
  by (simp add: reported_exports_def stats_json_def)

lemma handle_message_exports:
  assumes "handle_message ev i m s w = (s', w', out, fl)"
  shows "stat_exports w' = stat_exports w \<and> list_all (exports_reported_as (stat_exports w)) out"
proof (cases m)
  case (JObj kv)
  let ?a = "dict_get kv ''action'' JNull"
  consider (login) "?a = JStr ''login'' \<and> \<not> authenticated s"
    | (submit) "\<not> (?a = JStr ''login'' \<and> \<not> authenticated s)" "?a = JStr ''submit_data'' \<and> authenticated s"
    | (export) "?a = JStr ''export_csv'' \<and> authenticated s"
    | (stats) "?a = JStr ''get_stats'' \<and> authenticated s"
    | (other) "\<not> (?a = JStr ''login'' \<and> \<not> authenticated s)" "\<not> (?a = JStr ''submit_data'' \<and> authenticated s)"
        "\<not> (?a = JStr ''export_csv'' \<and> authenticated s)" "\<not> (?a = JStr ''get_stats'' \<and> authenticated s)"
    by blast
  then show ?thesis
  proof cases
    case login
    with assms JObj have "handle_login ev kv s w = (s', w', out, fl)"
      by (simp add: handle_message_def)
    then show ?thesis
      using handle_login_exports list_all_none_reported by blast
  next
    case submit
    with assms JObj have "handle_submit i kv s w = (s', w', out, fl)"
      by (simp add: handle_message_def)
    then show ?thesis
      using handle_submit_exports list_all_none_reported by blast
  next
    case export
    with assms JObj have "handle_export i s w = (s', w', out, fl)"
      by (simp add: handle_message_def)
    then show ?thesis
      using handle_export_exports list_all_none_reported by blast
  next
    case stats
    with assms JObj have "w' = w" and "out = [JObj [(''status'', JStr ''success''), (''stats'', stats_json w)]]"
      by (auto simp: handle_message_def)
    then show ?thesis
      by (simp add: exports_reported_as_def reported_exports_stats)
  next
    case other
    with assms JObj show ?thesis
      by (auto simp: handle_message_def Let_def exports_reported_as_def reported_exports_def
          error_response_def split: if_splits)
  qed
next
qed (use assms in \<open>auto simp: handle_message_def\<close>)

lemma handle_received_exports:
  assumes "handle_received ev i r s w = (s', w', out, fl)"
  shows "stat_exports w' = stat_exports w \<and> list_all (exports_reported_as (stat_exports w)) out"
proof (cases r)
  case (Data d)
  show ?thesis
  proof (cases "d = []")
    case True
    with assms Data show ?thesis by (simp add: handle_received_def)
  next
    case False
    show ?thesis
    proof (cases "json_loads ev d")
      case (Inl e)
      with assms Data False show ?thesis
        by (auto simp: handle_received_def exports_reported_as_def reported_exports_def error_response_def)
    next
      case (Inr m)
      with assms Data False have "handle_message ev i m s w = (s', w', out, fl)"
        by (simp add: handle_received_def)
      then show ?thesis by (rule handle_message_exports)
    qed
  qed
qed (use assms in \<open>auto simp: handle_received_def log_activity_frame\<close>)

lemma close_connection_exports: "stat_exports (close_connection fl s w) = stat_exports w"
  by (cases fl) (simp_all add: close_connection_def log_activity_frame)

lemma server_step_exports:
  assumes "server_step ev e sv = (sv', out)"
  shows "stat_exports (shared sv') = stat_exports (shared sv)
         \<and> list_all (\<lambda>p. exports_reported_as (stat_exports (shared sv)) (snd p)) out"
proof (cases e)
  case (Accept c a)
  with assms show ?thesis
    by (auto simp: server_step_def open_connection_def log_activity_frame split: option.splits)
next
  case (Receive c i r)
  show ?thesis
  proof (cases "sessions sv c")
    case None
    with assms Receive show ?thesis by (simp add: server_step_def)
  next
    case (Some s)
    obtain s' w' outs fl where h: "handle_received ev i r s (shared sv) = (s', w', outs, fl)"
      by (metis prod_cases4)
    from handle_received_exports [OF h]
    have "stat_exports w' = stat_exports (shared sv)"
      and "list_all (exports_reported_as (stat_exports (shared sv))) outs" by simp_all
    with assms Receive Some h show ?thesis
      by (auto simp: server_step_def close_connection_exports list_all_iff split: if_splits)
  qed
qed

lemma run_exports:
  "run ev es sv = (sv', out) \<Longrightarrow>
     stat_exports (shared sv') = stat_exports (shared sv)
     \<and> list_all (\<lambda>p. exports_reported_as (stat_exports (shared sv)) (snd p)) out"
proof (induction es arbitrary: sv sv' out)
  case Nil
  then show ?case by simp
next
  case (Cons e es)
  obtain sv1 out1 where s1: "server_step ev e sv = (sv1, out1)" by (cases "server_step ev e sv")
  obtain sv2 out2 where s2: "run ev es sv1 = (sv2, out2)" by (cases "run ev es sv1")
  from Cons.prems s1 s2 have eq: "sv' = sv2" "out = out1 @ out2" by simp_all
  from server_step_exports [OF s1] Cons.IH [OF s2] eq show ?case by simp
qed

lemma demo_run_responses:
  "map snd (snd (run demo_env demo_events (new_server (seeded_world demo_env)))) =
     [JObj [(''status'', JStr ''success''),
            (''message'', JStr ''Welcome Computer Science!''),
            (''dept_info'', JObj [(''success'', JBool True), (''dept_id'', JInt 1),
                                  (''dept_name'', JStr ''Computer Science'')])],
      JObj [(''status'', JStr ''success''),
            (''message'', JStr ''Data saved successfully! Entry ID: 1. CSV export completed for data analysis.''),
            (''entry_id'', JInt 1), (''dept_name'', JStr ''Computer Science'')],
      JObj [(''status'', JStr ''success''),
            (''message'', JStr ''Enhanced report exported to college_report.csv''),
            (''filename'', JStr ''college_report.csv'')],
      JObj [(''status'', JStr ''success''),
            (''stats'', JObj [(''connections'', JInt 1), (''data_entries'', JInt 1),
                              (''exports'', JInt 0)])]]"
  by (simp add: demo_defs)

text \<open>
  Claim C9. No step of the server writes the counter \<open>exports\<close>: neither the auto-export
  after a submit nor the \<open>export_csv\<close> action. So after any sequence of accepted
  connections and received texts, on any connections and in any interleaving, starting
  from a new server process on any database, the counter is 0, and every response sent
  during the run that reports the counter (the \<open>get_stats\<close> responses) reports 0.
\<close>

theorem exports_counter_stays_zero:
  "stat_exports (shared (fst (run ev es (new_server w0)))) = 0
   \<and> (\<forall>p \<in> set (snd (run ev es (new_server w0))).
         reported_exports (snd p) = None \<or> reported_exports (snd p) = Some (JInt 0))"
  using run_exports [OF surjective_pairing, of ev es "new_server w0"]
  by (simp add: new_server_def list_all_iff exports_reported_as_def)

theorem exports_counter_stays_zero_witness:
  "stat_exports (shared (fst (run demo_env demo_events (new_server (seeded_world demo_env))))) = 0
   \<and> map (\<lambda>p. reported_exports (snd p)) (snd (run demo_env demo_events (new_server (seeded_world demo_env))))
       = [None, None, None, Some (JInt 0)]"
proof -
  have "map (\<lambda>p. reported_exports (snd p)) (snd (run demo_env demo_events (new_server (seeded_world demo_env))))
        = map reported_exports (map snd (snd (run demo_env demo_events (new_server (seeded_world demo_env)))))"
    by simp
  also have "\<dots> = [None, None, None, Some (JInt 0)]"
    unfolding demo_run_responses by (simp add: reported_exports_def)
  finally show ?thesis
    using exports_counter_stays_zero [of demo_env demo_events "seeded_world demo_env"] by blast
qed

section \<open>Stripping\<close>

lemma strip_prefix: "\<exists>u. dropWhile isspace s = strip s @ u"
proof -
  let ?d = "dropWhile isspace s"
  have "rev ?d = takeWhile isspace (rev ?d) @ dropWhile isspace (rev ?d)" by simp
  then have "rev (rev ?d) = rev (takeWhile isspace (rev ?d) @ dropWhile isspace (rev ?d))" by simp
  then have "?d = rev (dropWhile isspace (rev ?d)) @ rev (takeWhile isspace (rev ?d))"
    by (simp del: takeWhile_dropWhile_id)
  then show ?thesis unfolding strip_def by blast
qed

lemma strip_starts_unspaced: "strip s \<noteq> [] \<Longrightarrow> \<not> isspace (hd (strip s))"
proof -
  assume ne: "strip s \<noteq> []"
  obtain u where u: "dropWhile isspace s = strip s @ u" using strip_prefix by blast
  with ne have "dropWhile isspace s \<noteq> []" by auto
  then have "\<not> isspace (hd (dropWhile isspace s))" by (rule hd_dropWhile)
  with u ne show ?thesis by simp
qed

lemma strip_ends_unspaced: "strip s \<noteq> [] \<Longrightarrow> \<not> isspace (last (strip s))"
proof -
  assume ne: "strip s \<noteq> []"
  let ?r = "dropWhile isspace (rev (dropWhile isspace s))"
  from ne have "?r \<noteq> []" by (simp add: strip_def)
  then have "\<not> isspace (hd ?r)" by (rule hd_dropWhile)
  moreover have "last (strip s) = hd ?r" using \<open>?r \<noteq> []\<close> by (simp add: strip_def last_rev)
  ultimately show ?thesis by simp
qed

lemma strip_unspaced:
  assumes "s = [] \<or> (\<not> isspace (hd s) \<and> \<not> isspace (last s))"
  shows "strip s = s"
proof (cases "s = []")
  case True
  then show ?thesis by (simp add: strip_def)
next
  case False
  with assms have h: "\<not> isspace (hd s)" and l: "\<not> isspace (last s)" by simp_all
  from False h have "dropWhile isspace s = s" by (simp add: dropWhile_eq_self_iff)
  moreover from False l have "dropWhile isspace (rev s) = rev s"
    by (simp add: dropWhile_eq_self_iff hd_rev)
  ultimately show ?thesis by (simp add: strip_def)
qed

lemma strip_strip: "strip (strip s) = strip s"
  using strip_starts_unspaced [of s] strip_ends_unspaced [of s]
  by (intro strip_unspaced) blast

lemma length_strip: "length (strip s) \<le> length s"
proof -
  have "length (strip s) \<le> length (dropWhile isspace s)"
    unfolding strip_def using length_dropWhile_le [of isspace "rev (dropWhile isspace s)"] by simp
  also have "\<dots> \<le> length s" by (rule length_dropWhile_le)
  finally show ?thesis .
qed

section \<open>A submit and its auto-export\<close>

text \<open>
  The auto-export never returns a file name: when the file can be opened, the query on
  the closed connection raises after the header and the category summary are written,
  so the copy to the latest file is not reached.
\<close>

lemma auto_export_fails: "snd (auto_export_enhanced_csv i w) = None"
  by (simp add: auto_export_enhanced_csv_def cursor_execute_def Let_def split: option.split)

lemma auto_export_world:
  "fst (auto_export_enhanced_csv i w) =
     (let filename = ''college_data_export_'' @ strftime_compact i @ ''.csv'' in
      case open_error i filename of
        Some e \<Rightarrow> log_activity (''Error creating CSV export: '' @ e) w
      | None \<Rightarrow>
          log_activity ''Error creating CSV export: Cannot operate on a closed database.''
            (w\<lparr>files := (files w)(filename \<mapsto> export_header i filename w @ category_rows w)\<rparr>))"
  by (simp add: auto_export_enhanced_csv_def cursor_execute_def Let_def split: option.split)

lemma auto_export_frame:
  "departments (fst (auto_export_enhanced_csv i w)) = departments w"
  "data_entries (fst (auto_export_enhanced_csv i w)) = data_entries w"
  "entry_seq (fst (auto_export_enhanced_csv i w)) = entry_seq w"
  "stat_data_entries (fst (auto_export_enhanced_csv i w)) = stat_data_entries w"
  by (simp_all add: auto_export_world Let_def log_activity_frame split: option.split)

lemma save_department_data_saved:
  assumes "dept \<noteq> 0" and "strip etype \<noteq> []" and "strip content \<noteq> []" and "length content \<le> 10000"
    and "find (\<lambda>d. dept_id d = dept) (departments w) = Some d"
  shows "snd (save_department_data i dept etype content w) = Saved (next_rowid w) (dept_name d)"
    and "data_entries (fst (save_department_data i dept etype content w)) =
           data_entries w @ [\<lparr>entry_id = next_rowid w, entry_dept_id = dept, entry_type = strip etype,
                               data_content = strip content, created_at = current_timestamp i\<rparr>]"
    and "(''INFO'', ''CSV auto-export failed'') \<in> set (system_logs (fst (save_department_data i dept etype content w)))"
proof -
  from assms(2,3) have ne: "etype \<noteq> []" "content \<noteq> []" by (auto simp: strip_def)
  with assms show "snd (save_department_data i dept etype content w) = Saved (next_rowid w) (dept_name d)"
    by (simp add: save_department_data_def Let_def)
  from assms ne show "data_entries (fst (save_department_data i dept etype content w)) =
           data_entries w @ [\<lparr>entry_id = next_rowid w, entry_dept_id = dept, entry_type = strip etype,
                               data_content = strip content, created_at = current_timestamp i\<rparr>]"
    by (simp add: save_department_data_def Let_def log_auto_export_def auto_export_fails
        log_activity_frame auto_export_frame)
  from assms ne show "(''INFO'', ''CSV auto-export failed'') \<in> set (system_logs (fst (save_department_data i dept etype content w)))"
    by (simp add: save_department_data_def Let_def log_auto_export_def auto_export_fails
        system_logs_log_activity)
qed


text \<open>
  Claim C6. A \<open>submit_data\<close> request on an authenticated session whose stripped fields
  pass the validation and whose department exists inserts the entry and is answered
  with the success response carrying the new \<open>entry_id\<close> and the \<open>dept_name\<close>,
  whatever the clock and the file system answer (\<open>i\<close> is arbitrary: the file of the
  export may or may not open). The failed auto-export shows only in the log.
\<close>

theorem export_failure_does_not_fail_submit:
  assumes "dict_get kv ''action'' JNull = JStr ''submit_data''"
    and "authenticated s" and "dept_info s = Some (dept, dname)" and "dept \<noteq> 0"
    and "find (\<lambda>d. dept_id d = dept) (departments w) = Some d"
    and "dict_get kv ''entry_type'' (JStr []) = JStr et"
    and "dict_get kv ''data_content'' (JStr []) = JStr dc"
    and "strip et \<noteq> []" and "strip dc \<noteq> []" and "length (strip dc) \<le> 10000"
  shows "fst (handle_message ev i (JObj kv) s w) = s
     \<and> snd (snd (handle_message ev i (JObj kv) s w)) =
         ([JObj [(''status'', JStr ''success''),
                 (''message'', JStr (''Data saved successfully! Entry ID: '' @ str_int (next_rowid w)
                    @ ''. CSV export completed for data analysis.'')),
                 (''entry_id'', JInt (next_rowid w)),
                 (''dept_name'', JStr (dept_name d))]], Continue)
     \<and> data_entries (fst (snd (handle_message ev i (JObj kv) s w))) =
         data_entries w @ [\<lparr>entry_id = next_rowid w, entry_dept_id = dept, entry_type = strip et,
                             data_content = strip dc, created_at = current_timestamp i\<rparr>]
     \<and> (''INFO'', ''CSV auto-export failed'') \<in> set (system_logs (fst (snd (handle_message ev i (JObj kv) s w))))"
proof -
  let ?save = "save_department_data i dept (strip et) (strip dc) w"
  have saved: "snd ?save = Saved (next_rowid w) (dept_name d)"
    and rows: "data_entries (fst ?save) =
           data_entries w @ [\<lparr>entry_id = next_rowid w, entry_dept_id = dept, entry_type = strip et,
                               data_content = strip dc, created_at = current_timestamp i\<rparr>]"
    and logged: "(''INFO'', ''CSV auto-export failed'') \<in> set (system_logs (fst ?save))"
    using save_department_data_saved [of dept "strip et" "strip dc" w d i] assms
    by (simp_all add: strip_strip)
  obtain w' where w': "?save = (w', Saved (next_rowid w) (dept_name d))"
    using saved by (cases ?save) simp
  have "handle_message ev i (JObj kv) s w = handle_submit i kv s w"
    using assms(1,2) by (simp add: handle_message_def)
  also have "\<dots> =
      (s, log_activity (''Data submission successful: '' @ strip et @ '' by '' @ dname) w',
       [JObj [(''status'', JStr ''success''),
              (''message'', JStr (''Data saved successfully! Entry ID: '' @ str_int (next_rowid w)
                 @ ''. CSV export completed for data analysis.'')),
              (''entry_id'', JInt (next_rowid w)),
              (''dept_name'', JStr (dept_name d))]], Continue)"
    using assms w' by (simp add: handle_submit_def get_stripped_def)
  finally show ?thesis
    using rows logged w' by (simp add: log_activity_frame system_logs_log_activity)
qed

theorem export_failure_does_not_fail_submit_witness:
  "snd (snd (handle_message demo_env demo_io_disk_full
       (JObj [(''action'', JStr ''submit_data''), (''entry_type'', JStr ''Research''),
              (''data_content'', JStr ''Grant report'')]) cs_session (seeded_world demo_env))) =
     ([JObj [(''status'', JStr ''success''),
             (''message'', JStr ''Data saved successfully! Entry ID: 1. CSV export completed for data analysis.''),
             (''entry_id'', JInt 1),
             (''dept_name'', JStr ''Computer Science'')]], Continue)
   \<and> (''INFO'', ''CSV auto-export failed'') \<in> set (system_logs (fst (snd (handle_message demo_env demo_io_disk_full
       (JObj [(''action'', JStr ''submit_data''), (''entry_type'', JStr ''Research''),
              (''data_content'', JStr ''Grant report'')]) cs_session (seeded_world demo_env)))))"
proof -
  have d: "find (\<lambda>d. dept_id d = 1) (departments (seeded_world demo_env)) =
             Some \<lparr>dept_id = 1, dept_name = ''Computer Science'', email = ''cs@college.edu'',
                   password_hash = ''sha256:cs_password123''\<rparr>"
    by (simp add: seeded_world_def sample_departments_def demo_env_def)
  have n: "next_rowid (seeded_world demo_env) = 1"
    by (simp add: next_rowid_def seeded_world_def)
  show ?thesis
    using export_failure_does_not_fail_submit [of
        "[(''action'', JStr ''submit_data''), (''entry_type'', JStr ''Research''), (''data_content'', JStr ''Grant report'')]"
        cs_session 1 "''Computer Science''" "seeded_world demo_env" _ "''Research''" "''Grant report''"
        demo_env demo_io_disk_full, OF _ _ _ _ d]
    by (simp add: n dict_get_def cs_session_def strip_def isspace_def str_int_def str_nat.simps digit_char_def)
qed

section \<open>The files the exports write\<close>

lemma export_formatted_report_opened:
  "open_error i filename = None \<Longrightarrow>
     export_formatted_report i filename w =
       (w\<lparr>files := (files w)(filename \<mapsto> report_rows i w)\<rparr>, Some filename)"
  by (simp add: export_formatted_report_def)

text \<open>
  Claim C5, as stated, fails on the \<open>export_csv\<close> action: asked at two different
  moments, it reports the same file name \<open>college_report.csv\<close> both times, and that
  file is the only one in the directory afterwards; no name carries a timestamp.
\<close>

theorem manual_export_name_is_fixed:
  "fst (snd (snd (handle_message demo_env demo_io (JObj [(''action'', JStr ''export_csv'')]) cs_session demo_world))) =
     [JObj [(''status'', JStr ''success''),
            (''message'', JStr ''Enhanced report exported to college_report.csv''),
            (''filename'', JStr ''college_report.csv'')]]
   \<and> fst (snd (snd (handle_message demo_env demo_io_later (JObj [(''action'', JStr ''export_csv'')]) cs_session demo_world))) =
     [JObj [(''status'', JStr ''success''),
            (''message'', JStr ''Enhanced report exported to college_report.csv''),
            (''filename'', JStr ''college_report.csv'')]]
   \<and> dom (files (fst (snd (handle_message demo_env demo_io_later (JObj [(''action'', JStr ''export_csv'')]) cs_session demo_world)))) =
     {''college_report.csv''}"
  by (simp add: handle_message_def dict_get_def cs_session_def handle_export_def
      export_formatted_report_opened demo_io_def demo_io_later_def demo_world_def seeded_world_def)

text \<open>
  Claim C5, amended. An auto-export whose file can be opened writes the file
  \<open>college_data_export_<timestamp>.csv\<close>, named after the moment of the call, with the
  header and the category summary in it. The \<open>export_csv\<close> action, when its file can
  be opened, writes the report to the fixed name \<open>college_report.csv\<close>, changes nothing
  else, and answers with that name.
\<close>

theorem export_file_names:
  assumes "open_error i (''college_data_export_'' @ strftime_compact i @ ''.csv'') = None"
    and "open_error i ''college_report.csv'' = None"
  shows "files (fst (auto_export_enhanced_csv i w)) (''college_data_export_'' @ strftime_compact i @ ''.csv'') =
           Some (export_header i (''college_data_export_'' @ strftime_compact i @ ''.csv'') w @ category_rows w)
     \<and> handle_export i s w =
           (s, w\<lparr>files := (files w)(''college_report.csv'' \<mapsto> report_rows i w)\<rparr>,
            [JObj [(''status'', JStr ''success''),
                   (''message'', JStr ''Enhanced report exported to college_report.csv''),
                   (''filename'', JStr ''college_report.csv'')]], Continue)"
  using assms
  by (simp add: auto_export_world Let_def log_activity_frame handle_export_def
      export_formatted_report_opened)

theorem export_file_names_witness:
  "files (fst (auto_export_enhanced_csv demo_io demo_world)) ''college_data_export_20240101_120000.csv'' =
     Some (export_header demo_io ''college_data_export_20240101_120000.csv'' demo_world @ category_rows demo_world)
   \<and> fst (snd (snd (handle_export demo_io cs_session demo_world))) =
     [JObj [(''status'', JStr ''success''),
            (''message'', JStr ''Enhanced report exported to college_report.csv''),
            (''filename'', JStr ''college_report.csv'')]]"
  using export_file_names [of demo_io demo_world cs_session]
  by (simp add: demo_io_def)

section \<open>The category summary\<close>

lemma sum_list_insort_key:
  "sum_list (map f (insort_key k x xs)) = f x + sum_list (map f xs)"
  for f :: "'a \<Rightarrow> 'b::comm_monoid_add"
  by (induction xs) (simp_all add: add.left_commute)

lemma sum_list_sort_key:
  "sum_list (map f (sort_key k xs)) = sum_list (map f xs)"
  for f :: "'a \<Rightarrow> 'b::comm_monoid_add"
  by (induction xs) (simp_all add: sum_list_insort_key)

lemma int_sum_list: "int (sum_list (map g xs)) = sum_list (map (\<lambda>x. int (g x)) xs)"
  by (induction xs) simp_all

lemma sum_count_remdups:
  "sum_list (map (\<lambda>t. int (count_list ts t)) (remdups ts)) = int (length ts)"
proof -
  have "sum_list (map (count_list ts) (remdups ts)) = sum (count_list ts) (set (remdups ts))"
    by (rule sum_list_distinct_conv_sum_set) simp
  also have "\<dots> = length ts"
    by (simp add: sum_count_set)
  finally have "int (sum_list (map (count_list ts) (remdups ts))) = int (length ts)" by simp
  then show ?thesis by (simp add: int_sum_list)
qed

lemma sum_type_stats: "sum_list (map snd (type_stats w)) = total_entries w"
  using sum_count_remdups [of "map entry_type (data_entries w)"]
  by (simp add: type_stats_def total_entries_def sum_list_sort_key comp_def)

lemma sum_percentages:
  "0 < n \<Longrightarrow> sum_list (map (\<lambda>r. percentage (f r) n) rows) = of_int (sum_list (map f rows)) / of_int n * 100"
  by (induction rows) (simp_all add: percentage_def add_divide_distrib distrib_right)


lemma sum_list_close:
  fixes f g :: "'a \<Rightarrow> rat"
  assumes "\<forall>r \<in> set rows. \<bar>f r - g r\<bar> \<le> \<delta>"
  shows "\<bar>sum_list (map f rows) - sum_list (map g rows)\<bar> \<le> of_nat (length rows) * \<delta>"
  using assms
proof (induction rows)
  case Nil
  then show ?case by simp
next
  case (Cons r rows)
  then have a: "\<bar>f r - g r\<bar> \<le> \<delta>"
    and b: "\<bar>sum_list (map f rows) - sum_list (map g rows)\<bar> \<le> of_nat (length rows) * \<delta>"
    by simp_all
  have "\<bar>sum_list (map f (r # rows)) - sum_list (map g (r # rows))\<bar>
        = \<bar>(f r - g r) + (sum_list (map f rows) - sum_list (map g rows))\<bar>" by simp
  also have "\<dots> \<le> \<bar>f r - g r\<bar> + \<bar>sum_list (map f rows) - sum_list (map g rows)\<bar>"
    by (rule abs_triangle_ineq)
  also have "\<dots> \<le> \<delta> + of_nat (length rows) * \<delta>" using a b by simp
  also have "\<dots> = of_nat (length (r # rows)) * \<delta>" by (simp add: algebra_simps)
  finally show ?case .
qed

lemma breakdown_counts: "sum_list (map (\<lambda>r. fst (snd r)) (category_breakdown w)) = total_entries w"
  using sum_type_stats [of w] by (simp add: category_breakdown_def comp_def)

lemma breakdown_percentages:
  assumes "data_entries w \<noteq> []"
  shows "sum_list (map (\<lambda>r. snd (snd r)) (category_breakdown w)) = 100"
proof -
  from assms have pos: "0 < total_entries w" by (simp add: total_entries_def)
  have "sum_list (map (\<lambda>r. snd (snd r)) (category_breakdown w))
        = sum_list (map (\<lambda>r. percentage (snd r) (total_entries w)) (type_stats w))"
    by (simp add: category_breakdown_def comp_def)
  also have "\<dots> = of_int (sum_list (map snd (type_stats w))) / of_int (total_entries w) * 100"
    using pos by (rule sum_percentages)
  also have "\<dots> = 100" using pos by (simp add: sum_type_stats)
  finally show ?thesis .
qed

text \<open>
  Claim C8. For a store with \<open>N > 0\<close> entries, the auto-export (its file opened) writes
  the category summary built from \<open>category_breakdown\<close>, in which the counts sum to
  \<open>N\<close>, each percentage is \<open>count / N * 100\<close>, and the percentages sum to 100. The
  percentages are exact rationals here; whatever is shown for them (the floating-point
  value, the text with one decimal) sums to 100 up to the number of rows times the
  largest deviation \<open>\<delta>\<close> of a shown value from its exact one.
\<close>

theorem category_breakdown_sums:
  assumes "data_entries w \<noteq> []"
    and "open_error i (''college_data_export_'' @ strftime_compact i @ ''.csv'') = None"
  shows "files (fst (auto_export_enhanced_csv i w)) (''college_data_export_'' @ strftime_compact i @ ''.csv'') =
           Some (export_header i (''college_data_export_'' @ strftime_compact i @ ''.csv'') w @ category_rows w)
     \<and> sum_list (map (\<lambda>r. fst (snd r)) (category_breakdown w)) = int (length (data_entries w))
     \<and> (\<forall>r \<in> set (category_breakdown w).
           snd (snd r) = of_int (fst (snd r)) / of_nat (length (data_entries w)) * 100)
     \<and> sum_list (map (\<lambda>r. snd (snd r)) (category_breakdown w)) = 100
     \<and> (\<forall>shown \<delta>. (\<forall>r \<in> set (category_breakdown w). \<bar>shown r - snd (snd r)\<bar> \<le> \<delta>) \<longrightarrow>
           \<bar>sum_list (map shown (category_breakdown w)) - 100\<bar> \<le> of_nat (length (category_breakdown w)) * \<delta>)"
proof -
  have written: "files (fst (auto_export_enhanced_csv i w)) (''college_data_export_'' @ strftime_compact i @ ''.csv'') =
           Some (export_header i (''college_data_export_'' @ strftime_compact i @ ''.csv'') w @ category_rows w)"
    using assms(2) by (simp add: auto_export_world Let_def log_activity_frame)
  have counts: "sum_list (map (\<lambda>r. fst (snd r)) (category_breakdown w)) = int (length (data_entries w))"
    using breakdown_counts [of w] by (simp add: total_entries_def)
  have each: "\<forall>r \<in> set (category_breakdown w).
           snd (snd r) = of_int (fst (snd r)) / of_nat (length (data_entries w)) * 100"
    using assms(1) by (auto simp: category_breakdown_def percentage_def total_entries_def)
  have pct: "sum_list (map (\<lambda>r. snd (snd r)) (category_breakdown w)) = 100"
    using assms(1) by (rule breakdown_percentages)
  have near: "\<forall>shown \<delta>. (\<forall>r \<in> set (category_breakdown w). \<bar>shown r - snd (snd r)\<bar> \<le> \<delta>) \<longrightarrow>
           \<bar>sum_list (map shown (category_breakdown w)) - 100\<bar> \<le> of_nat (length (category_breakdown w)) * \<delta>"
    using sum_list_close [of "category_breakdown w" _ "\<lambda>r. snd (snd r)"] pct by auto
  from written counts each pct near show ?thesis by blast
qed

lemma demo_breakdown:
  "category_breakdown demo_world = [(''Student Records'', 2, 200 / 3), (''Research'', 1, 100 / 3)]"
  by (simp add: category_breakdown_def type_stats_def percentage_def total_entries_def demo_world_def
      seeded_world_def)

theorem category_breakdown_sums_witness:
  "category_breakdown demo_world = [(''Student Records'', 2, 200 / 3), (''Research'', 1, 100 / 3)]
   \<and> sum_list (map (\<lambda>r. fst (snd r)) (category_breakdown demo_world)) = 3
   \<and> sum_list (map (\<lambda>r. snd (snd r)) (category_breakdown demo_world)) = 100
   \<and> files (fst (auto_export_enhanced_csv demo_io demo_world)) ''college_data_export_20240101_120000.csv'' =
        Some (export_header demo_io ''college_data_export_20240101_120000.csv'' demo_world @ category_rows demo_world)"
proof -
  have ne: "data_entries demo_world \<noteq> []" and n: "length (data_entries demo_world) = 3"
    by (simp_all add: demo_world_def seeded_world_def)
  have op: "open_error demo_io (''college_data_export_'' @ strftime_compact demo_io @ ''.csv'') = None"
    by (simp add: demo_io_def)
  have nm: "''college_data_export_'' @ strftime_compact demo_io @ ''.csv'' = ''college_data_export_20240101_120000.csv''"
    by (simp add: demo_io_def)
  from category_breakdown_sums [OF ne op] demo_breakdown show ?thesis
    unfolding n nm by simp
qed

end
